theory Spec2Isabelle
  imports Complex_Main
begin

section \<open>Numbers and library functions of the host language\<close>

text \<open>
  The application is TypeScript. A value of type \<open>number\<close> is modelled as a real:
  the formulas of the calculator and of the history summary are embedded with exact
  arithmetic, and the binary rounding of the individual floating-point operations is
  not represented. \<open>NaN\<close>, where a parse can produce it, is \<open>None\<close>.

  \<open>Math.round\<close> rounds to the nearest integer, a tie going up.
\<close>

definition Math_round :: "real \<Rightarrow> int" where
  "Math_round x = \<lfloor>x + 1 / 2\<rfloor>"

section \<open>The calorie calculator page\<close>

datatype gender = Male | Female

datatype unit_system = Metric | Imperial

text \<open>\<open>interface CalorieResults\<close>.\<close>

record CalorieResults =
  bmr :: int
  tdee :: int
  maintenance :: int
  weightLoss :: int
  weightGain :: int

text \<open>\<open>interface UserInputs\<close>: the text fields hold what the user typed.\<close>

record UserInputs =
  age :: string
  weight :: string
  height :: string
  gender :: gender
  activityLevel :: string
  unit :: unit_system

text \<open>\<open>calculateBMR\<close>, the Mifflin-St Jeor equation.\<close>

definition calculateBMR :: "real \<Rightarrow> real \<Rightarrow> real \<Rightarrow> gender \<Rightarrow> real" where
  "calculateBMR age' weight' height' gender' =
     (if gender' = Male
      then (10 * weight') + (6.25 * height') - (5 * age') + 5
      else (10 * weight') + (6.25 * height') - (5 * age') - 161)"

text \<open>
  What \<open>calculateCalories\<close> does with the result: it returns early and sets nothing
  (\<open>Skipped\<close>), or it calls \<open>setResults\<close>. When the activity multiplier is \<open>NaN\<close>
  the basal rate is still a number and is rounded, and the four values derived from
  the multiplier are \<open>NaN\<close>: that result is \<open>Computed_NaN\<close> with the rounded rate.
\<close>

datatype calc_outcome = Skipped | Computed CalorieResults | Computed_NaN int

text \<open>
  \<open>calculateCalories\<close>. \<open>parseInt\<close> and \<open>parseFloat\<close> are functions of the language and
  are parameters here; \<open>None\<close> is \<open>NaN\<close>. The guard \<open>!age || !weight || !height\<close> holds
  for \<open>NaN\<close> and for zero; the multiplier is not guarded. \<open>weightKg\<close> and \<open>heightCm\<close>
  start as the parsed inputs and are overwritten when the unit is imperial.
\<close>

definition calculateCalories ::
  "(string \<Rightarrow> int option) \<Rightarrow> (string \<Rightarrow> real option) \<Rightarrow> UserInputs \<Rightarrow> calc_outcome" where
  "calculateCalories parseInt parseFloat inp =
     (case (parseInt (age inp), parseFloat (weight inp), parseFloat (height inp)) of
        (Some age', Some weight', Some height') \<Rightarrow>
          if age' = 0 \<or> weight' = 0 \<or> height' = 0 \<or> age' < 1 \<or> weight' < 1 \<or> height' < 1
          then Skipped
          else
            let weightKg = (if unit inp = Imperial then weight' * 0.453592 else weight');
                heightCm = (if unit inp = Imperial then height' * 2.54 else height');
                bmr' = calculateBMR (of_int age') weightKg heightCm (gender inp)
            in (case parseFloat (activityLevel inp) of
                  None \<Rightarrow> Computed_NaN (Math_round bmr')
                | Some activityMultiplier \<Rightarrow>
                    let tdee' = bmr' * activityMultiplier
                    in Computed \<lparr> bmr = Math_round bmr',
                                  tdee = Math_round tdee',
                                  maintenance = Math_round tdee',
                                  weightLoss = Math_round (tdee' - 500),
                                  weightGain = Math_round (tdee' + 500) \<rparr>)
      | _ \<Rightarrow> Skipped)"

section \<open>Stored goals and the two stores\<close>

text \<open>
  A row of \<open>calorie_goals\<close>, with the fields that \<open>saveCalorieGoal\<close> writes. The
  identifier is \<open>goal_id\<close> here; the rate and the snapshot of the body metrics carry
  the prefix \<open>goal_\<close> to keep them apart from the fields of the calculator.
  \<open>created_at\<close> is the instant that the stored ISO string denotes, in milliseconds
  since the epoch. A snapshot value that did not parse is \<open>None\<close>, as are the macro
  goals that are \<open>null\<close>.
\<close>

record CalorieGoal =
  goal_id :: string
  user_id :: string
  goal_bmr :: real
  goal_tdee :: real
  maintenance_calories :: real
  weight_loss_calories :: real
  weight_gain_calories :: real
  goal_age :: "int option"
  goal_weight :: "real option"
  goal_height :: "real option"
  goal_gender :: string
  activity_level :: "real option"
  goal_unit_system :: string
  goal_type :: string
  protein_goal :: "real option"
  carbs_goal :: "real option"
  fat_goal :: "real option"
  created_at :: int

text \<open>
  The slot \<open>calorie_goals\<close> of the browser's local storage: nothing stored, a list of
  goals, or content on which \<open>JSON.parse\<close> (or the list operation that follows it)
  throws an error with the given message.
\<close>

datatype local_slot = Absent | Stored "CalorieGoal list" | Corrupt string

text \<open>
  The two stores. The remote table belongs to an external service: whether a request
  to it fails is not decided by this program, so it is part of the state
  (\<open>remote_error\<close> is the message of the error that the request returns or throws).
  Likewise \<open>setItem_error\<close> is the message of the error that
  \<open>localStorage.setItem\<close> throws, if it throws. An error is modelled by its message.
\<close>

record stores =
  remote_rows :: "CalorieGoal list"
  remote_error :: "string option"
  slot :: local_slot
  setItem_error :: "string option"

definition remote_insert :: "stores \<Rightarrow> CalorieGoal \<Rightarrow> string + stores" where
  "remote_insert st goal =
     (case remote_error st of
        Some msg \<Rightarrow> Inl msg
      | None \<Rightarrow> Inr (st\<lparr> remote_rows := remote_rows st @ [goal] \<rparr>))"

text \<open>\<open>JSON.parse(localStorage.getItem('calorie_goals') || '[]')\<close>.\<close>

definition local_read :: "stores \<Rightarrow> string + CalorieGoal list" where
  "local_read st =
     (case slot st of
        Absent \<Rightarrow> Inr []
      | Stored goals \<Rightarrow> Inr goals
      | Corrupt msg \<Rightarrow> Inl msg)"

text \<open>\<open>localStorage.setItem('calorie_goals', JSON.stringify(goals))\<close>.\<close>

definition local_write :: "stores \<Rightarrow> CalorieGoal list \<Rightarrow> string + stores" where
  "local_write st goals =
     (case setItem_error st of
        Some msg \<Rightarrow> Inl msg
      | None \<Rightarrow> Inr (st\<lparr> slot := Stored goals \<rparr>))"

text \<open>\<open>.update({...}).eq('id', id)\<close> with the three columns of the goal-edit flow.\<close>

definition remote_update :: "stores \<Rightarrow> string \<Rightarrow> real \<Rightarrow> string + stores" where
  "remote_update st gid v =
     (case remote_error st of
        Some msg \<Rightarrow> Inl msg
      | None \<Rightarrow>
          Inr (st\<lparr> remote_rows :=
                 map (\<lambda>row. if goal_id row = gid
                            then row\<lparr> weight_loss_calories := v, weight_gain_calories := v,
                                      goal_type := ''custom'' \<rparr>
                            else row)
                   (remote_rows st) \<rparr>))"

section \<open>Page state\<close>

record toast =
  title :: string
  description :: string
  destructive :: bool

text \<open>What both pages hold: the signed-in user's id, the toasts shown, the route.\<close>

record page =
  user :: "string option"
  toasts :: "toast list"
  location :: string

record calculator_page = page +
  inputs :: UserInputs
  results :: "CalorieResults option"
  isSaving :: bool
  savedGoal :: "string option"

section \<open>Saving a computed goal\<close>

datatype goal_kind = Maintenance | Weight_loss | Weight_gain

text \<open>The string of a goal type, and that string with its first underscore replaced by a space.\<close>

fun goal_type_name :: "goal_kind \<Rightarrow> string" where
  "goal_type_name Maintenance = ''maintenance''"
| "goal_type_name Weight_loss = ''weight_loss''"
| "goal_type_name Weight_gain = ''weight_gain''"

fun goal_type_label :: "goal_kind \<Rightarrow> string" where
  "goal_type_label Maintenance = ''maintenance''"
| "goal_type_label Weight_loss = ''weight loss''"
| "goal_type_label Weight_gain = ''weight gain''"

fun gender_name :: "gender \<Rightarrow> string" where
  "gender_name Male = ''male''"
| "gender_name Female = ''female''"

fun unit_name :: "unit_system \<Rightarrow> string" where
  "unit_name Metric = ''metric''"
| "unit_name Imperial = ''imperial''"

text \<open>The decimal digits of \<open>Date.now()\<close>, for the template \<open>goal_${Date.now()}\<close>.\<close>

function decimal :: "nat \<Rightarrow> string" where
  "decimal n =
     (if n < 10 then [''0123456789'' ! n]
      else decimal (n div 10) @ [''0123456789'' ! (n mod 10)])"
  by pat_completeness auto
termination
  by (relation "measure (\<lambda>n. n)") auto

text \<open>The object \<open>goalData\<close> that \<open>saveCalorieGoal\<close> builds; \<open>now\<close> is the clock reading.\<close>

definition goalData ::
  "(string \<Rightarrow> int option) \<Rightarrow> (string \<Rightarrow> real option) \<Rightarrow> nat \<Rightarrow> goal_kind \<Rightarrow> string \<Rightarrow>
   UserInputs \<Rightarrow> CalorieResults \<Rightarrow> CalorieGoal" where
  "goalData parseInt parseFloat now kind uid inp res =
     \<lparr> goal_id = ''goal_'' @ decimal now,
       user_id = uid,
       goal_bmr = of_int (bmr res),
       goal_tdee = of_int (tdee res),
       maintenance_calories = of_int (maintenance res),
       weight_loss_calories = of_int (weightLoss res),
       weight_gain_calories = of_int (weightGain res),
       goal_age = parseInt (age inp),
       goal_weight = parseFloat (weight inp),
       goal_height = parseFloat (height inp),
       goal_gender = gender_name (gender inp),
       activity_level = parseFloat (activityLevel inp),
       goal_unit_system = unit_name (unit inp),
       goal_type = goal_type_name kind,
       protein_goal = None,
       carbs_goal = None,
       fat_goal = None,
       created_at = int now \<rparr>"

text \<open>The local fallback of a save: read the list, push the goal, write the list back.\<close>

definition local_append :: "stores \<Rightarrow> CalorieGoal \<Rightarrow> string + stores" where
  "local_append st goal =
     (case local_read st of
        Inl msg \<Rightarrow> Inl msg
      | Inr existingGoals \<Rightarrow> local_write st (existingGoals @ [goal]))"

definition goal_saved :: "goal_kind \<Rightarrow> toast" where
  "goal_saved kind =
     \<lparr> title = ''Goal Saved!'',
       description = ''Your '' @ goal_type_label kind @ '' goal has been saved successfully.'',
       destructive = False \<rparr>"

text \<open>\<open>error.message || "Failed to save calorie goal. Please try again."\<close>.\<close>

definition save_failed :: "string \<Rightarrow> toast" where
  "save_failed msg =
     \<lparr> title = ''Save failed'',
       description = (if msg \<noteq> [] then msg
                      else ''Failed to save calorie goal. Please try again.''),
       destructive = True \<rparr>"

definition sign_in_required :: toast where
  "sign_in_required =
     \<lparr> title = ''Sign in required'',
       description = ''Please sign in to save your calorie goals.'',
       destructive = False \<rparr>"

text \<open>
  \<open>saveCalorieGoal\<close>. The inner \<open>try\<close> writes to the remote table; its \<open>catch\<close> is the
  local fallback, and an error thrown there reaches the outer \<open>catch\<close>, which shows
  the failure toast. The \<open>finally\<close> block clears \<open>isSaving\<close> on both ways out.
\<close>

definition saveCalorieGoal ::
  "(string \<Rightarrow> int option) \<Rightarrow> (string \<Rightarrow> real option) \<Rightarrow> nat \<Rightarrow> goal_kind \<Rightarrow>
   calculator_page \<times> stores \<Rightarrow> calculator_page \<times> stores" where
  "saveCalorieGoal parseInt parseFloat now kind ps =
     (let pg = fst ps; st = snd ps in
      case user pg of
        None \<Rightarrow> (pg\<lparr> toasts := toasts pg @ [sign_in_required], location := ''/auth'' \<rparr>, st)
      | Some uid \<Rightarrow>
         (case results pg of
            None \<Rightarrow> (pg, st)
          | Some res \<Rightarrow>
             (let goal = goalData parseInt parseFloat now kind uid (inputs pg) res;
                  saved = pg\<lparr> savedGoal := Some (goal_type_name kind),
                               toasts := toasts pg @ [goal_saved kind],
                               isSaving := False \<rparr>
              in case remote_insert st goal of
                   Inr st' \<Rightarrow> (saved, st')
                 | Inl dbError \<Rightarrow>
                    (case local_append st goal of
                       Inr st' \<Rightarrow> (saved, st')
                     | Inl msg \<Rightarrow>
                        (pg\<lparr> toasts := toasts pg @ [save_failed msg], isSaving := False \<rparr>,
                         st)))))"

section \<open>The history page\<close>

text \<open>
  \<open>interface MealAnalysis\<close>. \<open>analyzed_at\<close> is the time value of
  \<open>new Date(meal.analyzed_at)\<close>, \<open>None\<close> for a string that is not a date (its time
  value is \<open>NaN\<close>, and every comparison with it is false). \<open>food_items\<close> is the
  JSON text of the breakdown, which nothing here reads.
\<close>

record MealAnalysis =
  meal_id :: string
  image_url :: string
  calories :: real
  protein :: real
  carbs :: real
  fat :: real
  food_items :: string
  analyzed_at :: "int option"

datatype goal_status = Under | Over | Met

text \<open>\<open>interface NutritionSummary\<close>; an optional field that is not set is \<open>None\<close>.\<close>

record NutritionSummary =
  totalCalories :: real
  totalProtein :: real
  totalCarbs :: real
  totalFat :: real
  mealCount :: nat
  dailyGoal :: "real option"
  goalType :: "string option"
  goalStatus :: "goal_status option"

record history_page = page +
  meals :: "MealAnalysis list"
  calorieGoals :: "CalorieGoal list"
  currentGoal :: "CalorieGoal option"
  isEditingGoal :: bool
  editedCalories :: string
  isSavingEdit :: bool

subsection \<open>Loading the goals\<close>

text \<open>The test \<open>g.id && g.maintenance_calories > 0\<close> on an entry.\<close>

definition valid_goal :: "CalorieGoal \<Rightarrow> bool" where
  "valid_goal g = (goal_id g \<noteq> [] \<and> maintenance_calories g > 0)"

text \<open>
  \<open>localGoals.sort((a, b) => time(b) - time(a))\<close>: the sort of the language is stable,
  and the comparator puts the later \<open>created_at\<close> first.
\<close>

definition sort_newest_first :: "CalorieGoal list \<Rightarrow> CalorieGoal list" where
  "sort_newest_first goals = sort_key (\<lambda>g. - created_at g) goals"

text \<open>
  \<open>fetchCalorieGoals\<close>. The response of the remote query is a parameter: \<open>Inl\<close> an
  error (returned or thrown), \<open>Inr\<close> the rows in the order the store returns them
  (\<open>data || []\<close>, so a \<open>null\<close> is the empty list). The local fallback sorts the array
  in place after \<open>setCalorieGoals\<close> was given the same array, so the state sees the
  sorted list.
\<close>

definition fetchCalorieGoals ::
  "string + CalorieGoal list \<Rightarrow> stores \<Rightarrow> history_page \<Rightarrow> history_page" where
  "fetchCalorieGoals response st pg =
     (case response of
        Inr data \<Rightarrow>
          (case data of
             g # _ \<Rightarrow>
               if valid_goal g
               then pg\<lparr> calorieGoals := data, currentGoal := Some g \<rparr>
               else pg\<lparr> calorieGoals := data, currentGoal := None \<rparr>
           | [] \<Rightarrow> pg\<lparr> calorieGoals := data, currentGoal := None \<rparr>)
      | Inl error \<Rightarrow>
          (case local_read st of
             Inr localGoals \<Rightarrow>
               (case localGoals of
                  g # _ \<Rightarrow>
                    if valid_goal g
                    then (case sort_newest_first localGoals of
                            s # _ \<Rightarrow> pg\<lparr> calorieGoals := sort_newest_first localGoals,
                                           currentGoal := Some s \<rparr>
                          | [] \<Rightarrow> pg\<lparr> calorieGoals := [], currentGoal := None \<rparr>)
                    else pg\<lparr> calorieGoals := localGoals, currentGoal := None \<rparr>
                | [] \<Rightarrow> pg\<lparr> calorieGoals := localGoals, currentGoal := None \<rparr>)
           | Inl localError \<Rightarrow> pg\<lparr> calorieGoals := [], currentGoal := None \<rparr>))"

subsection \<open>Editing the calorie target\<close>

text \<open>The object \<open>updatedGoal\<close>: the current goal with three fields overwritten.\<close>

definition updatedGoal :: "CalorieGoal \<Rightarrow> real \<Rightarrow> CalorieGoal" where
  "updatedGoal cur v =
     cur\<lparr> weight_loss_calories := v, weight_gain_calories := v, goal_type := ''custom'' \<rparr>"

definition invalid_input :: toast where
  "invalid_input =
     \<lparr> title = ''Invalid input'',
       description = ''Please enter a valid calorie goal.'',
       destructive = True \<rparr>"

definition goal_updated :: "string \<Rightarrow> toast" where
  "goal_updated edited =
     \<lparr> title = ''Goal Updated!'',
       description = ''Your calorie goal has been updated to '' @ edited @ '' calories.'',
       destructive = False \<rparr>"

definition update_failed :: "string \<Rightarrow> toast" where
  "update_failed msg =
     \<lparr> title = ''Update failed'',
       description = (if msg \<noteq> [] then msg
                      else ''Failed to update calorie goal. Please try again.''),
       destructive = True \<rparr>"

text \<open>The local fallback of an edit: replace the entries with the goal's id.\<close>

definition local_replace :: "stores \<Rightarrow> string \<Rightarrow> CalorieGoal \<Rightarrow> string + stores" where
  "local_replace st gid updated =
     (case local_read st of
        Inl msg \<Rightarrow> Inl msg
      | Inr localGoals \<Rightarrow>
          local_write st (map (\<lambda>goal. if goal_id goal = gid then updated else goal) localGoals))"

text \<open>
  \<open>saveEditedCalorieGoal\<close>. \<open>Number\<close> is the conversion of the language, a parameter;
  \<open>None\<close> is \<open>NaN\<close>. The guard rejects a missing current goal, an empty text, a text
  that is not a number and a number that is not positive.
\<close>

definition saveEditedCalorieGoal ::
  "(string \<Rightarrow> real option) \<Rightarrow> history_page \<times> stores \<Rightarrow> history_page \<times> stores" where
  "saveEditedCalorieGoal Number ps =
     (let pg = fst ps; st = snd ps;
          rejected = (pg\<lparr> toasts := toasts pg @ [invalid_input] \<rparr>, st)
      in case (currentGoal pg, Number (editedCalories pg)) of
           (Some cur, Some v) \<Rightarrow>
             if editedCalories pg = [] \<or> v \<le> 0 then rejected
             else
               (let updated = updatedGoal cur v;
                    done = pg\<lparr> currentGoal := Some updated,
                                calorieGoals :=
                                  map (\<lambda>goal. if goal_id goal = goal_id cur then updated else goal)
                                    (calorieGoals pg),
                                isEditingGoal := False,
                                editedCalories := [],
                                toasts := toasts pg @ [goal_updated (editedCalories pg)],
                                isSavingEdit := False \<rparr>
                in case remote_update st (goal_id cur) v of
                     Inr st' \<Rightarrow> (done, st')
                   | Inl dbError \<Rightarrow>
                      (case local_replace st (goal_id cur) updated of
                         Inr st' \<Rightarrow> (done, st')
                       | Inl msg \<Rightarrow>
                          (pg\<lparr> toasts := toasts pg @ [update_failed msg],
                               isSavingEdit := False \<rparr>, st)))
         | _ \<Rightarrow> rejected)"

subsection \<open>The summary of a period\<close>

text \<open>The filter of \<open>calculateSummary\<close>: \<open>mealDate >= startDate && mealDate <= endDate\<close>.\<close>

definition in_window :: "int \<Rightarrow> int \<Rightarrow> MealAnalysis \<Rightarrow> bool" where
  "in_window startDate endDate meal =
     (case analyzed_at meal of
        None \<Rightarrow> False
      | Some mealDate \<Rightarrow> mealDate \<ge> startDate \<and> mealDate \<le> endDate)"

text \<open>
  The reducer and its initial value. \<open>Number(meal.calories)\<close> is the stored number;
  the optional fields of the summary are not set during the reduction.
\<close>

definition add_meal :: "NutritionSummary \<Rightarrow> MealAnalysis \<Rightarrow> NutritionSummary" where
  "add_meal acc meal =
     \<lparr> totalCalories = totalCalories acc + calories meal,
       totalProtein = totalProtein acc + protein meal,
       totalCarbs = totalCarbs acc + carbs meal,
       totalFat = totalFat acc + fat meal,
       mealCount = mealCount acc + 1,
       dailyGoal = None, goalType = None, goalStatus = None \<rparr>"

definition no_meals :: NutritionSummary where
  "no_meals =
     \<lparr> totalCalories = 0, totalProtein = 0, totalCarbs = 0, totalFat = 0, mealCount = 0,
       dailyGoal = None, goalType = None, goalStatus = None \<rparr>"

text \<open>The calorie target that the summary compares with: \<open>const goalCalories = ...\<close>.\<close>

definition goalCalories :: "CalorieGoal \<Rightarrow> real" where
  "goalCalories goal =
     (if goal_type goal = ''maintenance'' then maintenance_calories goal
      else if goal_type goal = ''weight_loss'' then weight_loss_calories goal
      else weight_gain_calories goal)"

definition calculateSummary ::
  "MealAnalysis list \<Rightarrow> CalorieGoal option \<Rightarrow> int \<Rightarrow> int \<Rightarrow> NutritionSummary" where
  "calculateSummary ms cg startDate endDate =
     (let filteredMeals = filter (in_window startDate endDate) ms;
          summary = foldl add_meal no_meals filteredMeals
      in case cg of
           None \<Rightarrow> summary
         | Some goal \<Rightarrow>
             summary\<lparr> dailyGoal := Some (goalCalories goal),
                      goalType := Some (goal_type goal),
                      goalStatus :=
                        Some (if totalCalories summary < goalCalories goal * 0.9 then Under
                              else if totalCalories summary > goalCalories goal * 1.1 then Over
                              else Met) \<rparr>)"

section \<open>Sample records\<close>

text \<open>
  Records for the worked examples below: a goal as \<open>saveCalorieGoal\<close> stores it for
  the calculator's scenario (25 years, 70 kg, 175 cm, male, multiplier 1.55), with the
  identifier, the goal type, the maintenance calories and the creation time left
  open, and a meal with its calories and its time.
\<close>

definition sample_goal :: "string \<Rightarrow> string \<Rightarrow> real \<Rightarrow> int \<Rightarrow> CalorieGoal" where
  "sample_goal gid kind m t =
     \<lparr> goal_id = gid, user_id = ''user-1'', goal_bmr = 1674, goal_tdee = m,
       maintenance_calories = m, weight_loss_calories = m - 500,
       weight_gain_calories = m + 500, goal_age = Some 25, goal_weight = Some 70,
       goal_height = Some 175, goal_gender = ''male'', activity_level = Some 1.55,
       goal_unit_system = ''metric'', goal_type = kind, protein_goal = None,
       carbs_goal = None, fat_goal = None, created_at = t \<rparr>"

definition sample_meal :: "real \<Rightarrow> int option \<Rightarrow> MealAnalysis" where
  "sample_meal kcal t =
     \<lparr> meal_id = ''meal'', image_url = ''https://example.org/meal.jpg'', calories = kcal,
       protein = 30, carbs = 40, fat = 10, food_items = ''[]'', analyzed_at = t \<rparr>"

text \<open>
  The state of the history page when it is first rendered (the initial values of its
  state variables), its route, and the same for the calculator page.
\<close>

definition initial_history_page :: history_page where
  "initial_history_page =
     \<lparr> user = None, toasts = [], location = ''/history'', meals = [], calorieGoals = [],
       currentGoal = None, isEditingGoal = False, editedCalories = [],
       isSavingEdit = False \<rparr>"

definition initial_calculator_page :: calculator_page where
  "initial_calculator_page =
     \<lparr> user = None, toasts = [], location = ''/calculator'',
       inputs = \<lparr> age = [], weight = [], height = [], gender = Male,
                  activityLevel = ''1.55'', unit = Metric \<rparr>,
       results = None, isSaving = False, savedGoal = None \<rparr>"

section \<open>Properties of the calculator\<close>

text \<open>
  C5. For every age, weight and height, \<open>calculateBMR\<close> is
  \<open>10 \<times> weight + 6.25 \<times> height - 5 \<times> age + 5\<close> for a male and
  \<open>10 \<times> weight + 6.25 \<times> height - 5 \<times> age - 161\<close> for a female, so the male result
  exceeds the female result by exactly 166 on the same inputs.
\<close>

theorem calculateBMR_formula:
  "calculateBMR a w h Male = 10 * w + 6.25 * h - 5 * a + 5 \<and>
   calculateBMR a w h Female = 10 * w + 6.25 * h - 5 * a - 161 \<and>
   calculateBMR a w h Male - calculateBMR a w h Female = 166"
  by (simp add: calculateBMR_def)

theorem calculateBMR_formula_witness:
  "calculateBMR 25 70 175 Male = 1673.75 \<and> calculateBMR 25 70 175 Female = 1507.75"
  using calculateBMR_formula [of 25 70 175] by simp

text \<open>
  C2 (as amended). For age 25, weight 70 kg, height 175 cm, male, activity multiplier
  1.55 and metric units the equation gives \<open>700 + 1093.75 - 125 + 5 = 1673.75\<close>, so
  the result is bmr 1674, tdee 2594 (the rounding of \<open>1673.75 \<times> 1.55 = 2594.3125\<close>, the
  unrounded rate times the multiplier), maintenance 2594, weightLoss 2094 and
  weightGain 3094.
\<close>

theorem calculateCalories_scenario:
  assumes "parseInt ''25'' = Some 25" "parseFloat ''70'' = Some 70"
    "parseFloat ''175'' = Some 175" "parseFloat ''1.55'' = Some 1.55"
  shows "calculateCalories parseInt parseFloat
           \<lparr> age = ''25'', weight = ''70'', height = ''175'', gender = Male,
             activityLevel = ''1.55'', unit = Metric \<rparr>
         = Computed \<lparr> bmr = 1674, tdee = 2594, maintenance = 2594,
                      weightLoss = 2094, weightGain = 3094 \<rparr>"
  using assms
  by (simp add: calculateCalories_def calculateBMR_def Math_round_def)

theorem calculateCalories_scenario_witness:
  "calculateCalories (\<lambda>s. if s = ''25'' then Some 25 else None)
     (\<lambda>s. if s = ''70'' then Some 70 else if s = ''175'' then Some 175
           else if s = ''1.55'' then Some 1.55 else None)
     \<lparr> age = ''25'', weight = ''70'', height = ''175'', gender = Male,
       activityLevel = ''1.55'', unit = Metric \<rparr>
   = Computed \<lparr> bmr = 1674, tdee = 2594, maintenance = 2594,
                weightLoss = 2094, weightGain = 3094 \<rparr>"
  by (rule calculateCalories_scenario) simp_all

text \<open>
  The figures that the specification gives for this scenario (bmr 1725, tdee 2674,
  maintenance 2674, weightLoss 2174, weightGain 3174) are not what the function
  computes on that input.
\<close>

theorem calculateCalories_scenario_counterexample:
  "calculateCalories (\<lambda>s. if s = ''25'' then Some 25 else None)
     (\<lambda>s. if s = ''70'' then Some 70 else if s = ''175'' then Some 175
           else if s = ''1.55'' then Some 1.55 else None)
     \<lparr> age = ''25'', weight = ''70'', height = ''175'', gender = Male,
       activityLevel = ''1.55'', unit = Metric \<rparr>
   \<noteq> Computed \<lparr> bmr = 1725, tdee = 2674, maintenance = 2674,
                weightLoss = 2174, weightGain = 3174 \<rparr>"
  by (simp add: calculateCalories_def calculateBMR_def Math_round_def)




section \<open>Properties of the summary\<close>

text \<open>The reduction adds up the meals it is given and counts them.\<close>

lemma foldl_add_meal:
  "foldl add_meal acc xs =
     (if xs = [] then acc
      else \<lparr> totalCalories = totalCalories acc + sum_list (map calories xs),
             totalProtein = totalProtein acc + sum_list (map protein xs),
             totalCarbs = totalCarbs acc + sum_list (map carbs xs),
             totalFat = totalFat acc + sum_list (map fat xs),
             mealCount = mealCount acc + length xs,
             dailyGoal = None, goalType = None, goalStatus = None \<rparr>)"
proof (induction xs arbitrary: acc)
  case Nil
  show ?case by simp
next
  case (Cons x xs)
  have "foldl add_meal acc (x # xs) = foldl add_meal (add_meal acc x) xs"
    by simp
  also have "\<dots> =
     (if xs = [] then add_meal acc x
      else \<lparr> totalCalories = totalCalories (add_meal acc x) + sum_list (map calories xs),
             totalProtein = totalProtein (add_meal acc x) + sum_list (map protein xs),
             totalCarbs = totalCarbs (add_meal acc x) + sum_list (map carbs xs),
             totalFat = totalFat (add_meal acc x) + sum_list (map fat xs),
             mealCount = mealCount (add_meal acc x) + length xs,
             dailyGoal = None, goalType = None, goalStatus = None \<rparr>)"
    by (rule Cons.IH)
  also have "\<dots> =
     \<lparr> totalCalories = totalCalories acc + sum_list (map calories (x # xs)),
       totalProtein = totalProtein acc + sum_list (map protein (x # xs)),
       totalCarbs = totalCarbs acc + sum_list (map carbs (x # xs)),
       totalFat = totalFat acc + sum_list (map fat (x # xs)),
       mealCount = mealCount acc + length (x # xs),
       dailyGoal = None, goalType = None, goalStatus = None \<rparr>"
    by (simp add: add_meal_def)
  finally show ?case by simp
qed

lemma foldl_add_meal_no_meals:
  "foldl add_meal no_meals xs =
     \<lparr> totalCalories = sum_list (map calories xs),
       totalProtein = sum_list (map protein xs),
       totalCarbs = sum_list (map carbs xs),
       totalFat = sum_list (map fat xs),
       mealCount = length xs,
       dailyGoal = None, goalType = None, goalStatus = None \<rparr>"
  by (simp add: foldl_add_meal) (simp add: no_meals_def)

lemma in_window_iff:
  "in_window a b m \<longleftrightarrow> (\<exists>t. analyzed_at m = Some t \<and> a \<le> t \<and> t \<le> b)"
  by (simp add: in_window_def split: option.split)

lemma totalCalories_calculateSummary:
  "totalCalories (calculateSummary ms cg a b) =
     sum_list (map calories (filter (in_window a b) ms))"
  by (simp add: calculateSummary_def Let_def foldl_add_meal_no_meals split: option.split)

lemma goalStatus_calculateSummary:
  "goalStatus (calculateSummary ms (Some goal) a b) =
     Some (if totalCalories (calculateSummary ms (Some goal) a b) < goalCalories goal * 0.9 then Under
           else if totalCalories (calculateSummary ms (Some goal) a b) > goalCalories goal * 1.1 then Over
           else Met)"
  by (simp add: calculateSummary_def Let_def)

text \<open>
  C6. For every list of meals and every window, \<open>calculateSummary\<close> keeps exactly the
  meals whose \<open>analyzed_at\<close> lies between the start and the end of the window, both
  ends included, and returns the sums of their calories, protein, carbs and fat and
  their number. When no meal is kept the count and the four totals are 0; the function
  has no failing branch.
\<close>

theorem calculateSummary_totals:
  "totalCalories (calculateSummary ms cg a b) =
     sum_list (map calories (filter (\<lambda>m. \<exists>t. analyzed_at m = Some t \<and> a \<le> t \<and> t \<le> b) ms)) \<and>
   totalProtein (calculateSummary ms cg a b) =
     sum_list (map protein (filter (\<lambda>m. \<exists>t. analyzed_at m = Some t \<and> a \<le> t \<and> t \<le> b) ms)) \<and>
   totalCarbs (calculateSummary ms cg a b) =
     sum_list (map carbs (filter (\<lambda>m. \<exists>t. analyzed_at m = Some t \<and> a \<le> t \<and> t \<le> b) ms)) \<and>
   totalFat (calculateSummary ms cg a b) =
     sum_list (map fat (filter (\<lambda>m. \<exists>t. analyzed_at m = Some t \<and> a \<le> t \<and> t \<le> b) ms)) \<and>
   mealCount (calculateSummary ms cg a b) =
     length (filter (\<lambda>m. \<exists>t. analyzed_at m = Some t \<and> a \<le> t \<and> t \<le> b) ms) \<and>
   (filter (\<lambda>m. \<exists>t. analyzed_at m = Some t \<and> a \<le> t \<and> t \<le> b) ms = [] \<longrightarrow>
      mealCount (calculateSummary ms cg a b) = 0 \<and>
      totalCalories (calculateSummary ms cg a b) = 0 \<and>
      totalProtein (calculateSummary ms cg a b) = 0 \<and>
      totalCarbs (calculateSummary ms cg a b) = 0 \<and>
      totalFat (calculateSummary ms cg a b) = 0)"
proof -
  have w: "in_window a b = (\<lambda>m. \<exists>t. analyzed_at m = Some t \<and> a \<le> t \<and> t \<le> b)"
    by (rule ext) (rule in_window_iff)
  show ?thesis
    unfolding w [symmetric]
    by (simp add: calculateSummary_def Let_def foldl_add_meal_no_meals split: option.split)
qed

theorem calculateSummary_totals_witness:
  "calculateSummary
     [sample_meal 500 (Some 10), sample_meal 700 (Some 20), sample_meal 300 (Some 15),
      sample_meal 900 (Some 21), sample_meal 100 (Some 9), sample_meal 50 None]
     None 10 20
   = \<lparr> totalCalories = 1500, totalProtein = 90, totalCarbs = 120, totalFat = 30,
       mealCount = 3, dailyGoal = None, goalType = None, goalStatus = None \<rparr> \<and>
   mealCount (calculateSummary [sample_meal 900 (Some 21)] None 10 20) = 0 \<and>
   totalCalories (calculateSummary [sample_meal 900 (Some 21)] None 10 20) = 0 \<and>
   calculateSummary [] None 10 20
   = \<lparr> totalCalories = 0, totalProtein = 0, totalCarbs = 0, totalFat = 0,
       mealCount = 0, dailyGoal = None, goalType = None, goalStatus = None \<rparr>"
  using calculateSummary_totals [of "[sample_meal 900 (Some 21)]" None 10 20]
  by (simp add: calculateSummary_def in_window_def add_meal_def no_meals_def sample_meal_def)



text \<open>
  C4 (as amended). For every positive goal, a total exactly equal to 0.9 times the goal
  is \<open>met\<close> (the comparison is strict, so it is not \<open>under\<close>), every total strictly
  above 0.9 times the goal is not \<open>under\<close>, and a total exactly equal to 1.1 times the
  goal is \<open>met\<close>, not \<open>over\<close>.
\<close>

theorem goal_status_boundaries:
  assumes "0 < goalCalories goal"
  shows "(totalCalories (calculateSummary ms (Some goal) a b) = 0.9 * goalCalories goal \<longrightarrow>
            goalStatus (calculateSummary ms (Some goal) a b) = Some Met) \<and>
         (totalCalories (calculateSummary ms (Some goal) a b) > 0.9 * goalCalories goal \<longrightarrow>
            goalStatus (calculateSummary ms (Some goal) a b) \<noteq> Some Under) \<and>
         (totalCalories (calculateSummary ms (Some goal) a b) = 1.1 * goalCalories goal \<longrightarrow>
            goalStatus (calculateSummary ms (Some goal) a b) = Some Met \<and>
            goalStatus (calculateSummary ms (Some goal) a b) \<noteq> Some Over)"
proof -
  let ?t = "totalCalories (calculateSummary ms (Some goal) a b)"
  let ?g = "goalCalories goal"
  have lo_hi: "0.9 * ?g < 1.1 * ?g" using assms by simp
  have st: "goalStatus (calculateSummary ms (Some goal) a b) =
              Some (if ?t < ?g * 0.9 then Under else if ?t > ?g * 1.1 then Over else Met)"
    by (rule goalStatus_calculateSummary)
  show ?thesis
    unfolding st using lo_hi by (auto simp: mult.commute)
qed

theorem goal_status_boundaries_witness:
  "0 < goalCalories (sample_goal ''g1'' ''maintenance'' 2000 5) \<and>
   totalCalories (calculateSummary [sample_meal 1800 (Some 10)]
     (Some (sample_goal ''g1'' ''maintenance'' 2000 5)) 10 20)
     = 0.9 * goalCalories (sample_goal ''g1'' ''maintenance'' 2000 5) \<and>
   goalStatus (calculateSummary [sample_meal 1800 (Some 10)]
     (Some (sample_goal ''g1'' ''maintenance'' 2000 5)) 10 20) = Some Met \<and>
   totalCalories (calculateSummary [sample_meal 2200 (Some 10)]
     (Some (sample_goal ''g1'' ''maintenance'' 2000 5)) 10 20)
     = 1.1 * goalCalories (sample_goal ''g1'' ''maintenance'' 2000 5) \<and>
   totalCalories (calculateSummary [sample_meal 2200 (Some 10)]
     (Some (sample_goal ''g1'' ''maintenance'' 2000 5)) 10 20)
     > 0.9 * goalCalories (sample_goal ''g1'' ''maintenance'' 2000 5) \<and>
   goalStatus (calculateSummary [sample_meal 2200 (Some 10)]
     (Some (sample_goal ''g1'' ''maintenance'' 2000 5)) 10 20) = Some Met \<and>
   goalStatus (calculateSummary [sample_meal 2200 (Some 10)]
     (Some (sample_goal ''g1'' ''maintenance'' 2000 5)) 10 20) \<noteq> Some Under"
proof -
  have pos: "0 < goalCalories (sample_goal ''g1'' ''maintenance'' 2000 5)"
    by (simp add: goalCalories_def sample_goal_def)
  have target: "goalCalories (sample_goal ''g1'' ''maintenance'' 2000 5) = 2000"
    by (simp add: goalCalories_def sample_goal_def)
  have t1: "totalCalories (calculateSummary [sample_meal 1800 (Some 10)]
     (Some (sample_goal ''g1'' ''maintenance'' 2000 5)) 10 20) = 1800"
    by (simp add: totalCalories_calculateSummary in_window_def sample_meal_def)
  have t2: "totalCalories (calculateSummary [sample_meal 2200 (Some 10)]
     (Some (sample_goal ''g1'' ''maintenance'' 2000 5)) 10 20) = 2200"
    by (simp add: totalCalories_calculateSummary in_window_def sample_meal_def)
  from goal_status_boundaries [OF pos, of "[sample_meal 1800 (Some 10)]" 10 20]
  have s1: "goalStatus (calculateSummary [sample_meal 1800 (Some 10)]
     (Some (sample_goal ''g1'' ''maintenance'' 2000 5)) 10 20) = Some Met"
    by (simp add: t1 target)
  from goal_status_boundaries [OF pos, of "[sample_meal 2200 (Some 10)]" 10 20]
  have s2: "goalStatus (calculateSummary [sample_meal 2200 (Some 10)]
     (Some (sample_goal ''g1'' ''maintenance'' 2000 5)) 10 20) = Some Met"
    by (simp add: t2 target)
  show ?thesis
    using pos by (simp add: s1 s2 t1 t2 target)
qed

text \<open>
  The specification's list of boundaries has a total exactly equal to 0.9 times the
  goal classified \<open>under\<close>. With a goal of 2000 and one meal of 1800 in the window
  the total is 0.9 times the goal and the status is \<open>met\<close>.
\<close>

theorem goal_status_boundaries_counterexample:
  "totalCalories (calculateSummary [sample_meal 1800 (Some 10)]
     (Some (sample_goal ''g1'' ''maintenance'' 2000 5)) 10 20)
     = 0.9 * goalCalories (sample_goal ''g1'' ''maintenance'' 2000 5) \<and>
   goalStatus (calculateSummary [sample_meal 1800 (Some 10)]
     (Some (sample_goal ''g1'' ''maintenance'' 2000 5)) 10 20) \<noteq> Some Under"
  by (simp add: calculateSummary_def in_window_def add_meal_def no_meals_def
      goalCalories_def sample_meal_def sample_goal_def)

text \<open>
  C10. When a current goal exists, the target that the summary reports as
  \<open>dailyGoal\<close> and classifies against is \<open>maintenance_calories\<close> when the goal type is
  \<open>maintenance\<close>, \<open>weight_loss_calories\<close> when it is \<open>weight_loss\<close>, and
  \<open>weight_gain_calories\<close> for every other goal type; a goal of type \<open>custom\<close> is
  compared with its \<open>weight_gain_calories\<close>.
\<close>

theorem summary_goal_target:
  "dailyGoal (calculateSummary ms (Some goal) a b) = Some (goalCalories goal) \<and>
   goalType (calculateSummary ms (Some goal) a b) = Some (goal_type goal) \<and>
   goalStatus (calculateSummary ms (Some goal) a b) =
     Some (if totalCalories (calculateSummary ms (Some goal) a b) < goalCalories goal * 0.9
           then Under
           else if totalCalories (calculateSummary ms (Some goal) a b) > goalCalories goal * 1.1
           then Over else Met) \<and>
   (goal_type goal = ''maintenance'' \<longrightarrow> goalCalories goal = maintenance_calories goal) \<and>
   (goal_type goal = ''weight_loss'' \<longrightarrow> goalCalories goal = weight_loss_calories goal) \<and>
   (goal_type goal \<noteq> ''maintenance'' \<and> goal_type goal \<noteq> ''weight_loss'' \<longrightarrow>
      goalCalories goal = weight_gain_calories goal) \<and>
   (goal_type goal = ''custom'' \<longrightarrow>
      dailyGoal (calculateSummary ms (Some goal) a b) = Some (weight_gain_calories goal))"
proof -
  have "dailyGoal (calculateSummary ms (Some goal) a b) = Some (goalCalories goal)"
    by (simp add: calculateSummary_def Let_def)
  moreover have "goalType (calculateSummary ms (Some goal) a b) = Some (goal_type goal)"
    by (simp add: calculateSummary_def Let_def)
  moreover note goalStatus_calculateSummary [of ms goal a b]
  moreover have "goal_type goal = ''custom'' \<longrightarrow> goalCalories goal = weight_gain_calories goal"
    by (simp add: goalCalories_def)
  ultimately show ?thesis
    by (simp add: goalCalories_def)
qed

theorem summary_goal_target_witness:
  "dailyGoal (calculateSummary [sample_meal 1500 (Some 10)]
     (Some (sample_goal ''g1'' ''maintenance'' 2000 5)) 10 20) = Some 2000 \<and>
   dailyGoal (calculateSummary [sample_meal 1500 (Some 10)]
     (Some (sample_goal ''g1'' ''weight_loss'' 2000 5)) 10 20) = Some 1500 \<and>
   dailyGoal (calculateSummary [sample_meal 1500 (Some 10)]
     (Some (sample_goal ''g1'' ''weight_gain'' 2000 5)) 10 20) = Some 2500 \<and>
   dailyGoal (calculateSummary [sample_meal 1500 (Some 10)]
     (Some (sample_goal ''g1'' ''custom'' 2000 5)) 10 20) = Some 2500 \<and>
   goalStatus (calculateSummary [sample_meal 1500 (Some 10)]
     (Some (sample_goal ''g1'' ''custom'' 2000 5)) 10 20) = Some Under"
  using summary_goal_target [of "[sample_meal 1500 (Some 10)]"
      "sample_goal ''g1'' ''maintenance'' 2000 5" 10 20]
    summary_goal_target [of "[sample_meal 1500 (Some 10)]"
      "sample_goal ''g1'' ''weight_loss'' 2000 5" 10 20]
    summary_goal_target [of "[sample_meal 1500 (Some 10)]"
      "sample_goal ''g1'' ''weight_gain'' 2000 5" 10 20]
    summary_goal_target [of "[sample_meal 1500 (Some 10)]"
      "sample_goal ''g1'' ''custom'' 2000 5" 10 20]
  by (simp add: totalCalories_calculateSummary in_window_def sample_meal_def sample_goal_def
      goalCalories_def)

section \<open>Properties of loading, saving and editing goals\<close>

text \<open>A list that is already ordered newest first is left as it is by the sort.\<close>

lemma sort_newest_first_id:
  assumes "sorted_wrt (\<lambda>x y. created_at x \<ge> created_at y) goals"
  shows "sort_newest_first goals = goals"
proof -
  have "sorted (map (\<lambda>g. - created_at g) goals)"
    using assms by (simp add: sorted_map)
  then show ?thesis
    unfolding sort_newest_first_def by (rule sort_key_id_if_sorted)
qed

text \<open>
  C1 (as amended). For every list of goals ordered by \<open>created_at\<close> descending,
  \<open>fetchCalorieGoals\<close> makes the first entry of the list the current goal when its id
  is non-empty and its \<open>maintenance_calories\<close> is positive, and sets no current goal
  otherwise, that is when the list is empty or its first entry is invalid. Entries
  after the first are not examined. This holds for the rows of the remote store and for
  the list of the local fallback.
\<close>

theorem fetch_current_goal:
  assumes "sorted_wrt (\<lambda>x y. created_at x \<ge> created_at y) goals"
  shows "currentGoal (fetchCalorieGoals (Inr goals) st pg) =
           (case goals of [] \<Rightarrow> None | g # _ \<Rightarrow> if valid_goal g then Some g else None) \<and>
         (slot st = Stored goals \<longrightarrow>
            currentGoal (fetchCalorieGoals (Inl err) st pg) =
              (case goals of [] \<Rightarrow> None | g # _ \<Rightarrow> if valid_goal g then Some g else None))"
proof -
  have remote: "currentGoal (fetchCalorieGoals (Inr goals) st pg) =
           (case goals of [] \<Rightarrow> None | g # _ \<Rightarrow> if valid_goal g then Some g else None)"
    by (simp add: fetchCalorieGoals_def split: list.split)
  have fallback: "currentGoal (fetchCalorieGoals (Inl err) st pg) =
           (case goals of [] \<Rightarrow> None | g # _ \<Rightarrow> if valid_goal g then Some g else None)"
    if "slot st = Stored goals"
    using that sort_newest_first_id [OF assms]
    by (simp add: fetchCalorieGoals_def local_read_def split: list.split)
  from remote fallback show ?thesis by simp
qed

theorem fetch_current_goal_witness:
  "sorted_wrt (\<lambda>x y. created_at x \<ge> created_at y)
     [sample_goal ''g3'' ''maintenance'' 2000 20, sample_goal ''g2'' ''maintenance'' 1800 10] \<and>
   currentGoal (fetchCalorieGoals
     (Inr [sample_goal ''g3'' ''maintenance'' 2000 20, sample_goal ''g2'' ''maintenance'' 1800 10])
     \<lparr> remote_rows = [], remote_error = None, slot = Absent, setItem_error = None \<rparr>
     initial_history_page) = Some (sample_goal ''g3'' ''maintenance'' 2000 20) \<and>
   currentGoal (fetchCalorieGoals (Inl ''Failed to fetch'')
     \<lparr> remote_rows = [], remote_error = Some ''Failed to fetch'',
       slot = Stored [sample_goal ''g3'' ''maintenance'' 2000 20,
                      sample_goal ''g2'' ''maintenance'' 1800 10],
       setItem_error = None \<rparr>
     initial_history_page) = Some (sample_goal ''g3'' ''maintenance'' 2000 20)"
proof -
  have desc: "sorted_wrt (\<lambda>x y. created_at x \<ge> created_at y)
     [sample_goal ''g3'' ''maintenance'' 2000 20, sample_goal ''g2'' ''maintenance'' 1800 10]"
    by (simp add: sample_goal_def)
  have ok: "valid_goal (sample_goal ''g3'' ''maintenance'' 2000 20)"
    by (simp add: valid_goal_def sample_goal_def)
  show ?thesis
    using desc ok
      fetch_current_goal [OF desc, of
        "\<lparr> remote_rows = [], remote_error = None, slot = Absent, setItem_error = None \<rparr>"
        initial_history_page]
      fetch_current_goal [OF desc, of
        "\<lparr> remote_rows = [], remote_error = Some ''Failed to fetch'',
           slot = Stored [sample_goal ''g3'' ''maintenance'' 2000 20,
                          sample_goal ''g2'' ''maintenance'' 1800 10],
           setItem_error = None \<rparr>"
        initial_history_page "''Failed to fetch''"]
    by simp
qed

text \<open>
  The specification has invalid entries skipped. With an invalid newest entry followed
  by a valid one, a first valid entry exists and no current goal is set.
\<close>

theorem fetch_current_goal_counterexample:
  "sorted_wrt (\<lambda>x y. created_at x \<ge> created_at y)
     [sample_goal [] ''maintenance'' 0 20, sample_goal ''g2'' ''maintenance'' 1800 10] \<and>
   find valid_goal
     [sample_goal [] ''maintenance'' 0 20, sample_goal ''g2'' ''maintenance'' 1800 10]
     = Some (sample_goal ''g2'' ''maintenance'' 1800 10) \<and>
   currentGoal (fetchCalorieGoals
     (Inr [sample_goal [] ''maintenance'' 0 20, sample_goal ''g2'' ''maintenance'' 1800 10])
     \<lparr> remote_rows = [], remote_error = None, slot = Absent, setItem_error = None \<rparr>
     initial_history_page) = None"
  by (simp add: fetchCalorieGoals_def valid_goal_def sample_goal_def)

text \<open>The three ways through \<open>saveCalorieGoal\<close> for a signed-in user with a result.\<close>

lemma saveCalorieGoal_remote_ok:
  assumes "user pg = Some uid" "results pg = Some res" "remote_error st = None"
  shows "saveCalorieGoal parseInt parseFloat now kind (pg, st) =
           (pg\<lparr> savedGoal := Some (goal_type_name kind),
                 toasts := toasts pg @ [goal_saved kind], isSaving := False \<rparr>,
            st\<lparr> remote_rows := remote_rows st @
                   [goalData parseInt parseFloat now kind uid (inputs pg) res] \<rparr>)"
  using assms by (simp add: saveCalorieGoal_def remote_insert_def Let_def)

lemma saveCalorieGoal_local_ok:
  assumes "user pg = Some uid" "results pg = Some res" "remote_error st = Some e"
    "local_read st = Inr existing" "setItem_error st = None"
  shows "saveCalorieGoal parseInt parseFloat now kind (pg, st) =
           (pg\<lparr> savedGoal := Some (goal_type_name kind),
                 toasts := toasts pg @ [goal_saved kind], isSaving := False \<rparr>,
            st\<lparr> slot := Stored (existing @
                   [goalData parseInt parseFloat now kind uid (inputs pg) res]) \<rparr>)"
  using assms
  by (simp add: saveCalorieGoal_def remote_insert_def local_append_def local_write_def Let_def)

lemma saveCalorieGoal_both_fail:
  assumes "user pg = Some uid" "results pg = Some res" "remote_error st = Some e"
    "local_append st (goalData parseInt parseFloat now kind uid (inputs pg) res) = Inl msg"
  shows "saveCalorieGoal parseInt parseFloat now kind (pg, st) =
           (pg\<lparr> toasts := toasts pg @ [save_failed msg], isSaving := False \<rparr>, st)"
  using assms
  by (simp add: saveCalorieGoal_def remote_insert_def Let_def)

lemma local_append_cases:
  "local_append st goal =
     (case slot st of
        Corrupt msg \<Rightarrow> Inl msg
      | Absent \<Rightarrow> (case setItem_error st of Some msg \<Rightarrow> Inl msg
                   | None \<Rightarrow> Inr (st\<lparr> slot := Stored [goal] \<rparr>))
      | Stored goals \<Rightarrow> (case setItem_error st of Some msg \<Rightarrow> Inl msg
                   | None \<Rightarrow> Inr (st\<lparr> slot := Stored (goals @ [goal]) \<rparr>)))"
  by (simp add: local_append_def local_read_def local_write_def split: local_slot.split)

lemma goal_saved_neq_save_failed: "goal_saved kind \<noteq> save_failed msg"
  by (simp add: goal_saved_def save_failed_def)

text \<open>
  C8. Saving a goal reports success whenever one of the two writes succeeds, the remote
  one or, after the remote one failed, the local fallback; a remote failure alone is
  not reported. The failure toast is shown exactly when the remote write and the local
  fallback both fail, and it carries the message of the error that the fallback threw.
\<close>

theorem save_goal_reporting:
  assumes "user pg = Some uid" "results pg = Some res"
  shows
    "(toasts (fst (saveCalorieGoal parseInt parseFloat now kind (pg, st)))
        = toasts pg @ [goal_saved kind] \<longleftrightarrow>
      remote_error st = None \<or> ((\<forall>m. slot st \<noteq> Corrupt m) \<and> setItem_error st = None)) \<and>
     ((\<exists>msg. toasts (fst (saveCalorieGoal parseInt parseFloat now kind (pg, st)))
          = toasts pg @ [save_failed msg]) \<longleftrightarrow>
      remote_error st \<noteq> None \<and> ((\<exists>m. slot st = Corrupt m) \<or> setItem_error st \<noteq> None)) \<and>
     (\<forall>m. remote_error st \<noteq> None \<and> slot st = Corrupt m \<longrightarrow>
        saveCalorieGoal parseInt parseFloat now kind (pg, st)
          = (pg\<lparr> toasts := toasts pg @ [save_failed m], isSaving := False \<rparr>, st)) \<and>
     (\<forall>m. remote_error st \<noteq> None \<and> (\<forall>m'. slot st \<noteq> Corrupt m') \<and>
        setItem_error st = Some m \<longrightarrow>
        saveCalorieGoal parseInt parseFloat now kind (pg, st)
          = (pg\<lparr> toasts := toasts pg @ [save_failed m], isSaving := False \<rparr>, st)) \<and>
     (remote_error st = None \<longrightarrow>
        saveCalorieGoal parseInt parseFloat now kind (pg, st)
          = (pg\<lparr> savedGoal := Some (goal_type_name kind),
                  toasts := toasts pg @ [goal_saved kind], isSaving := False \<rparr>,
             st\<lparr> remote_rows := remote_rows st @
                    [goalData parseInt parseFloat now kind uid (inputs pg) res] \<rparr>)) \<and>
     (remote_error st \<noteq> None \<and> (\<forall>m. slot st \<noteq> Corrupt m) \<and> setItem_error st = None \<longrightarrow>
        saveCalorieGoal parseInt parseFloat now kind (pg, st)
          = (pg\<lparr> savedGoal := Some (goal_type_name kind),
                  toasts := toasts pg @ [goal_saved kind], isSaving := False \<rparr>,
             st\<lparr> slot := Stored ((case slot st of Stored goals \<Rightarrow> goals | _ \<Rightarrow> []) @
                    [goalData parseInt parseFloat now kind uid (inputs pg) res]) \<rparr>))"
proof (cases "remote_error st")
  case None
  with assms show ?thesis
    by (simp add: saveCalorieGoal_remote_ok goal_saved_neq_save_failed)
next
  case (Some e)
  note remote = Some
  show ?thesis
  proof (cases "local_append st (goalData parseInt parseFloat now kind uid (inputs pg) res)")
    case (Inl msg)
    then have both: "saveCalorieGoal parseInt parseFloat now kind (pg, st) =
           (pg\<lparr> toasts := toasts pg @ [save_failed msg], isSaving := False \<rparr>, st)"
      using assms remote by (simp add: saveCalorieGoal_both_fail)
    from Inl have why: "slot st = Corrupt msg \<or>
        ((\<forall>m. slot st \<noteq> Corrupt m) \<and> setItem_error st = Some msg)"
      by (auto simp: local_append_cases split: local_slot.splits option.splits)
    have neq: "save_failed msg \<noteq> goal_saved kind"
      using goal_saved_neq_save_failed [of kind msg] by simp
    from why show ?thesis
      unfolding both using remote neq by auto
  next
    case (Inr st')
    then have ok: "(\<forall>m. slot st \<noteq> Corrupt m) \<and> setItem_error st = None"
      by (auto simp: local_append_cases split: local_slot.splits option.splits)
    have rd: "local_read st = Inr (case slot st of Stored goals \<Rightarrow> goals | _ \<Rightarrow> [])"
      using ok by (simp add: local_read_def split: local_slot.split)
    have saved: "saveCalorieGoal parseInt parseFloat now kind (pg, st) =
           (pg\<lparr> savedGoal := Some (goal_type_name kind),
                 toasts := toasts pg @ [goal_saved kind], isSaving := False \<rparr>,
            st\<lparr> slot := Stored ((case slot st of Stored goals \<Rightarrow> goals | _ \<Rightarrow> []) @
                   [goalData parseInt parseFloat now kind uid (inputs pg) res]) \<rparr>)"
      using assms remote rd ok by (simp add: saveCalorieGoal_local_ok)
    show ?thesis
      unfolding saved using remote ok by (simp add: goal_saved_neq_save_failed)
  qed
qed

theorem save_goal_reporting_witness:
  "toasts (fst (saveCalorieGoal (\<lambda>s. None) (\<lambda>s. None) 1700000000000 Maintenance
      (initial_calculator_page\<lparr> user := Some ''user-1'',
         results := Some \<lparr> bmr = 1674, tdee = 2594, maintenance = 2594,
                            weightLoss = 2094, weightGain = 3094 \<rparr> \<rparr>,
       \<lparr> remote_rows = [], remote_error = None, slot = Absent, setItem_error = None \<rparr>)))
     = [goal_saved Maintenance] \<and>
   toasts (fst (saveCalorieGoal (\<lambda>s. None) (\<lambda>s. None) 1700000000000 Maintenance
      (initial_calculator_page\<lparr> user := Some ''user-1'',
         results := Some \<lparr> bmr = 1674, tdee = 2594, maintenance = 2594,
                            weightLoss = 2094, weightGain = 3094 \<rparr> \<rparr>,
       \<lparr> remote_rows = [], remote_error = Some ''Failed to fetch'', slot = Absent,
         setItem_error = None \<rparr>)))
     = [goal_saved Maintenance] \<and>
   toasts (fst (saveCalorieGoal (\<lambda>s. None) (\<lambda>s. None) 1700000000000 Maintenance
      (initial_calculator_page\<lparr> user := Some ''user-1'',
         results := Some \<lparr> bmr = 1674, tdee = 2594, maintenance = 2594,
                            weightLoss = 2094, weightGain = 3094 \<rparr> \<rparr>,
       \<lparr> remote_rows = [], remote_error = Some ''Failed to fetch'', slot = Absent,
         setItem_error = Some ''The quota has been exceeded.'' \<rparr>)))
     = [save_failed ''The quota has been exceeded.''] \<and>
   description (save_failed ''The quota has been exceeded.'') = ''The quota has been exceeded.''"
proof -
  let ?pg = "initial_calculator_page\<lparr> user := Some ''user-1'',
         results := Some \<lparr> bmr = 1674, tdee = 2594, maintenance = 2594,
                            weightLoss = 2094, weightGain = 3094 \<rparr> \<rparr>"
  let ?res = "\<lparr> bmr = 1674, tdee = 2594, maintenance = 2594,
                 weightLoss = 2094, weightGain = 3094 \<rparr>"
  have u: "user ?pg = Some ''user-1''" and r: "results ?pg = Some ?res"
    and t: "toasts ?pg = []"
    by (simp_all add: initial_calculator_page_def)
  note rep = save_goal_reporting [where parseInt = "\<lambda>s. None" and parseFloat = "\<lambda>s. None"
      and now = 1700000000000 and kind = Maintenance, OF u r]
  show ?thesis
    using rep [where st = "\<lparr> remote_rows = [], remote_error = None, slot = Absent,
                    setItem_error = None \<rparr>"]
      rep [where st = "\<lparr> remote_rows = [], remote_error = Some ''Failed to fetch'', slot = Absent,
                setItem_error = None \<rparr>"]
      rep [where st = "\<lparr> remote_rows = [], remote_error = Some ''Failed to fetch'', slot = Absent,
                setItem_error = Some ''The quota has been exceeded.'' \<rparr>"]
    by (simp add: t save_failed_def)
qed

text \<open>\<open>saveEditedCalorieGoal\<close> once its guard has accepted the input.\<close>

lemma saveEditedCalorieGoal_accepted:
  assumes "currentGoal pg = Some cur" "editedCalories pg \<noteq> []"
    "Number (editedCalories pg) = Some v" "0 < v"
  shows "saveEditedCalorieGoal Number (pg, st) =
     (case remote_update st (goal_id cur) v of
        Inr st' \<Rightarrow>
          (pg\<lparr> currentGoal := Some (updatedGoal cur v),
               calorieGoals := map (\<lambda>goal. if goal_id goal = goal_id cur
                                             then updatedGoal cur v else goal) (calorieGoals pg),
               isEditingGoal := False, editedCalories := [],
               toasts := toasts pg @ [goal_updated (editedCalories pg)],
               isSavingEdit := False \<rparr>, st')
      | Inl dbError \<Rightarrow>
          (case local_replace st (goal_id cur) (updatedGoal cur v) of
             Inr st' \<Rightarrow>
               (pg\<lparr> currentGoal := Some (updatedGoal cur v),
                    calorieGoals := map (\<lambda>goal. if goal_id goal = goal_id cur
                                                  then updatedGoal cur v else goal) (calorieGoals pg),
                    isEditingGoal := False, editedCalories := [],
                    toasts := toasts pg @ [goal_updated (editedCalories pg)],
                    isSavingEdit := False \<rparr>, st')
           | Inl msg \<Rightarrow>
               (pg\<lparr> toasts := toasts pg @ [update_failed msg], isSavingEdit := False \<rparr>, st)))"
  using assms by (simp add: saveEditedCalorieGoal_def Let_def)

text \<open>
  C9. For every current goal and every positive edited value, the updated goal has that
  value in both \<open>weight_loss_calories\<close> and \<open>weight_gain_calories\<close> and the goal type
  \<open>custom\<close>, and \<open>maintenance_calories\<close> and every other field are those of the
  goal before the edit. When a write succeeds the page holds the updated goal; the
  remote update changes these three columns of the rows with the goal's id, and the
  local fallback replaces the entries with the goal's id by the updated goal.
\<close>

theorem edit_goal_update:
  assumes "currentGoal pg = Some cur" "editedCalories pg \<noteq> []"
    "Number (editedCalories pg) = Some v" "0 < v"
  shows
    "weight_loss_calories (updatedGoal cur v) = v \<and>
     weight_gain_calories (updatedGoal cur v) = v \<and>
     goal_type (updatedGoal cur v) = ''custom'' \<and>
     maintenance_calories (updatedGoal cur v) = maintenance_calories cur \<and>
     goal_id (updatedGoal cur v) = goal_id cur \<and>
     user_id (updatedGoal cur v) = user_id cur \<and>
     goal_bmr (updatedGoal cur v) = goal_bmr cur \<and>
     goal_tdee (updatedGoal cur v) = goal_tdee cur \<and>
     protein_goal (updatedGoal cur v) = protein_goal cur \<and>
     carbs_goal (updatedGoal cur v) = carbs_goal cur \<and>
     fat_goal (updatedGoal cur v) = fat_goal cur \<and>
     created_at (updatedGoal cur v) = created_at cur \<and>
     goal_age (updatedGoal cur v) = goal_age cur \<and>
     goal_weight (updatedGoal cur v) = goal_weight cur \<and>
     goal_height (updatedGoal cur v) = goal_height cur \<and>
     goal_gender (updatedGoal cur v) = goal_gender cur \<and>
     activity_level (updatedGoal cur v) = activity_level cur \<and>
     goal_unit_system (updatedGoal cur v) = goal_unit_system cur \<and>
     (remote_error st = None \<or> ((\<forall>m. slot st \<noteq> Corrupt m) \<and> setItem_error st = None) \<longrightarrow>
        currentGoal (fst (saveEditedCalorieGoal Number (pg, st))) = Some (updatedGoal cur v) \<and>
        calorieGoals (fst (saveEditedCalorieGoal Number (pg, st))) =
          map (\<lambda>goal. if goal_id goal = goal_id cur then updatedGoal cur v else goal)
            (calorieGoals pg)) \<and>
     (remote_error st = None \<longrightarrow>
        remote_rows (snd (saveEditedCalorieGoal Number (pg, st))) =
          map (\<lambda>row. if goal_id row = goal_id cur then updatedGoal row v else row)
            (remote_rows st) \<and>
        slot (snd (saveEditedCalorieGoal Number (pg, st))) = slot st) \<and>
     (\<forall>goals. remote_error st \<noteq> None \<and> slot st = Stored goals \<and> setItem_error st = None \<longrightarrow>
        slot (snd (saveEditedCalorieGoal Number (pg, st))) =
          Stored (map (\<lambda>goal. if goal_id goal = goal_id cur then updatedGoal cur v else goal)
                    goals) \<and>
        remote_rows (snd (saveEditedCalorieGoal Number (pg, st))) = remote_rows st)"
proof -
  have fields: "weight_loss_calories (updatedGoal cur v) = v \<and>
     weight_gain_calories (updatedGoal cur v) = v \<and>
     goal_type (updatedGoal cur v) = ''custom'' \<and>
     maintenance_calories (updatedGoal cur v) = maintenance_calories cur \<and>
     goal_id (updatedGoal cur v) = goal_id cur \<and>
     user_id (updatedGoal cur v) = user_id cur \<and>
     goal_bmr (updatedGoal cur v) = goal_bmr cur \<and>
     goal_tdee (updatedGoal cur v) = goal_tdee cur \<and>
     protein_goal (updatedGoal cur v) = protein_goal cur \<and>
     carbs_goal (updatedGoal cur v) = carbs_goal cur \<and>
     fat_goal (updatedGoal cur v) = fat_goal cur \<and>
     created_at (updatedGoal cur v) = created_at cur \<and>
     goal_age (updatedGoal cur v) = goal_age cur \<and>
     goal_weight (updatedGoal cur v) = goal_weight cur \<and>
     goal_height (updatedGoal cur v) = goal_height cur \<and>
     goal_gender (updatedGoal cur v) = goal_gender cur \<and>
     activity_level (updatedGoal cur v) = activity_level cur \<and>
     goal_unit_system (updatedGoal cur v) = goal_unit_system cur"
    by (simp add: updatedGoal_def)
  note run = saveEditedCalorieGoal_accepted [of pg cur Number v st, OF assms]
  have rows: "(\<lambda>row. if goal_id row = goal_id cur
                 then row\<lparr> weight_loss_calories := v, weight_gain_calories := v,
                           goal_type := ''custom'' \<rparr> else row) =
              (\<lambda>row. if goal_id row = goal_id cur then updatedGoal row v else row)"
    by (rule ext) (simp add: updatedGoal_def)
  have state: "(remote_error st = None \<or> ((\<forall>m. slot st \<noteq> Corrupt m) \<and> setItem_error st = None) \<longrightarrow>
        currentGoal (fst (saveEditedCalorieGoal Number (pg, st))) = Some (updatedGoal cur v) \<and>
        calorieGoals (fst (saveEditedCalorieGoal Number (pg, st))) =
          map (\<lambda>goal. if goal_id goal = goal_id cur then updatedGoal cur v else goal)
            (calorieGoals pg))"
    unfolding run
    by (cases "remote_error st"; cases "slot st"; cases "setItem_error st")
       (simp_all add: remote_update_def local_replace_def local_read_def local_write_def)
  have remote: "(remote_error st = None \<longrightarrow>
        remote_rows (snd (saveEditedCalorieGoal Number (pg, st))) =
          map (\<lambda>row. if goal_id row = goal_id cur then updatedGoal row v else row)
            (remote_rows st) \<and>
        slot (snd (saveEditedCalorieGoal Number (pg, st))) = slot st)"
    unfolding run by (simp add: remote_update_def rows)
  have fallback: "(\<forall>goals. remote_error st \<noteq> None \<and> slot st = Stored goals \<and> setItem_error st = None \<longrightarrow>
        slot (snd (saveEditedCalorieGoal Number (pg, st))) =
          Stored (map (\<lambda>goal. if goal_id goal = goal_id cur then updatedGoal cur v else goal)
                    goals) \<and>
        remote_rows (snd (saveEditedCalorieGoal Number (pg, st))) = remote_rows st)"
    unfolding run
    by (auto simp: remote_update_def local_replace_def local_read_def local_write_def)
  from fields state remote fallback show ?thesis
    by blast
qed

theorem edit_goal_update_witness:
  "currentGoal (fst (saveEditedCalorieGoal (\<lambda>s. if s = ''1800'' then Some 1800 else None)
     (initial_history_page\<lparr> user := Some ''user-1'',
        calorieGoals := [sample_goal ''g1'' ''maintenance'' 2000 5],
        currentGoal := Some (sample_goal ''g1'' ''maintenance'' 2000 5),
        editedCalories := ''1800'' \<rparr>,
      \<lparr> remote_rows = [sample_goal ''g1'' ''maintenance'' 2000 5], remote_error = None,
        slot = Absent, setItem_error = None \<rparr>)))
   = Some ((sample_goal ''g1'' ''maintenance'' 2000 5)
             \<lparr> weight_loss_calories := 1800, weight_gain_calories := 1800,
               goal_type := ''custom'' \<rparr>) \<and>
   remote_rows (snd (saveEditedCalorieGoal (\<lambda>s. if s = ''1800'' then Some 1800 else None)
     (initial_history_page\<lparr> user := Some ''user-1'',
        calorieGoals := [sample_goal ''g1'' ''maintenance'' 2000 5],
        currentGoal := Some (sample_goal ''g1'' ''maintenance'' 2000 5),
        editedCalories := ''1800'' \<rparr>,
      \<lparr> remote_rows = [sample_goal ''g1'' ''maintenance'' 2000 5], remote_error = None,
        slot = Absent, setItem_error = None \<rparr>)))
   = [(sample_goal ''g1'' ''maintenance'' 2000 5)
             \<lparr> weight_loss_calories := 1800, weight_gain_calories := 1800,
               goal_type := ''custom'' \<rparr>] \<and>
   maintenance_calories ((sample_goal ''g1'' ''maintenance'' 2000 5)
             \<lparr> weight_loss_calories := 1800, weight_gain_calories := 1800,
               goal_type := ''custom'' \<rparr>) = 2000"
proof -
  let ?g = "sample_goal ''g1'' ''maintenance'' 2000 5"
  let ?pg = "initial_history_page\<lparr> user := Some ''user-1'', calorieGoals := [?g],
        currentGoal := Some ?g, editedCalories := ''1800'' \<rparr>"
  let ?N = "\<lambda>s. if s = ''1800'' then Some (1800::real) else None"
  have a1: "currentGoal ?pg = Some ?g" by simp
  have a2: "editedCalories ?pg \<noteq> []" by simp
  have a3: "?N (editedCalories ?pg) = Some 1800" by simp
  have a4: "(0::real) < 1800" by simp
  show ?thesis
    using edit_goal_update [of ?pg ?g ?N 1800
        "\<lparr> remote_rows = [?g], remote_error = None, slot = Absent, setItem_error = None \<rparr>", OF a1 a2 a3 a4]
    by (simp add: updatedGoal_def sample_goal_def)
qed

end
